theory Spec2Isabelle
  imports Main "HOL-Library.AList"
begin

section \<open>Data model of the live-session signalling relay (app.py)\<close>

text \<open>
  The relay keeps two global dictionaries, \<open>active_sessions\<close> (the room registry) and
  \<open>session_participants\<close> (the participant tracker). Identifiers and payload fields are
  strings; a payload field that is missing (\<open>data.get\<close> returning \<open>None\<close>) is \<open>None\<close>.
  The outer dictionaries are maps. The inner dictionary of a session, whose values are
  listed in insertion order by \<open>session_info\<close>, is an association list: \<open>AList.update\<close>
  overwrites a key in place or appends it, as a Python dict does, and \<open>AList.delete\<close>
  is \<open>del\<close>; the keys of such a list are distinct in every reachable state.
\<close>

text \<open>The Flask session of a logged-in user: the keys set together by \<open>login\<close>.\<close>

record identity =
  sess_user_id :: string
  sess_user_type :: string
  sess_user_name :: string

text \<open>
  A socket connection: \<open>request.sid\<close> and the Flask session seen by its handlers
  (\<open>None\<close> when \<open>'user_id' not in session\<close>).
\<close>

record conn =
  sid :: string
  http_session :: "identity option"

text \<open>The inbound event payload \<open>data\<close>; each field is what \<open>data.get(...)\<close> returns.\<close>

record data =
  session_id :: "string option"
  user_id :: "string option"
  target_user_id :: "string option"
  from_user_id :: "string option"
  offer :: "string option"
  answer :: "string option"
  candidate :: "string option"
  message :: "string option"

text \<open>A value of \<open>active_sessions\<close>, as built by \<open>start_live_session\<close>.\<close>

record session_rec =
  lecture_id :: string
  teacher_id :: string
  teacher_name :: string
  lecture_title :: string
  started_at :: string
  status :: string
  participants :: "string list"
  recordings :: "string list"

text \<open>A value of \<open>session_participants[session_id]\<close>, as built by \<open>handle_join_session\<close>.\<close>

record participant =
  p_user_type :: string
  p_user_name :: string
  socket_id :: string
  joined_at :: string

text \<open>The row returned by \<open>db.get_lecture_by_id\<close>, of which the route reads two columns.\<close>

record lecture =
  lec_teacher_id :: string
  lec_title :: string

text \<open>
  A started \<open>threading.Timer(interval, lambda: cleanup_session(session_id))\<close>: its
  interval in seconds, the session its callback cleans up, and whether it has fired.
\<close>

record timer =
  interval :: nat
  timer_session :: string
  fired :: bool

text \<open>Outbound payloads, one constructor per dictionary literal passed to \<open>emit\<close>.\<close>

datatype payload =
    P_error string
  | P_live_session_started string string string string string
  | P_user_joined string string string nat
  | P_session_info string "participant list" nat
  | P_user_left string nat
  | P_session_ended
  | P_offer "string option" "string option"
  | P_answer "string option" "string option"
  | P_candidate "string option" "string option"
  | P_chat data

text \<open>
  One call of \<open>emit\<close>: the event name, the payload, the room it is addressed to and the
  socket skipped by \<open>include_self=False\<close>. An \<open>emit\<close> without \<open>room\<close> inside a handler
  goes to the room named by the sender's own \<open>request.sid\<close>.
\<close>

record emission =
  event :: string
  body :: payload
  room :: string
  skip_sid :: "string option"

record state =
  active_sessions :: "string \<rightharpoonup> session_rec"
  session_participants :: "string \<rightharpoonup> (string \<times> participant) list"
  rooms :: "string \<Rightarrow> string set"
  timers :: "timer list"

datatype response = Json_error nat string | Started string

definition init_state :: state where
  "init_state = \<lparr>active_sessions = Map.empty, session_participants = Map.empty,
     rooms = (\<lambda>_. {}), timers = []\<rparr>"

section \<open>Framework primitives\<close>

text \<open>Python truthiness of a payload field: \<open>None\<close> and the empty string are falsy.\<close>

definition truthy :: "string option \<Rightarrow> bool" where
  "truthy x = (case x of None \<Rightarrow> False | Some s \<Rightarrow> s \<noteq> [])"

definition emit_self :: "conn \<Rightarrow> string \<Rightarrow> payload \<Rightarrow> emission" where
  "emit_self c ev p = \<lparr>event = ev, body = p, room = sid c, skip_sid = None\<rparr>"

definition emit_room :: "string \<Rightarrow> string \<Rightarrow> payload \<Rightarrow> emission" where
  "emit_room r ev p = \<lparr>event = ev, body = p, room = r, skip_sid = None\<rparr>"

definition emit_others :: "conn \<Rightarrow> string \<Rightarrow> string \<Rightarrow> payload \<Rightarrow> emission" where
  "emit_others c r ev p = \<lparr>event = ev, body = p, room = r, skip_sid = Some (sid c)\<rparr>"

definition join_room :: "string \<Rightarrow> conn \<Rightarrow> state \<Rightarrow> state" where
  "join_room r c st = st\<lparr>rooms := (rooms st)(r := insert (sid c) (rooms st r))\<rparr>"

definition leave_room :: "string \<Rightarrow> conn \<Rightarrow> state \<Rightarrow> state" where
  "leave_room r c st = st\<lparr>rooms := (rooms st)(r := rooms st r - {sid c})\<rparr>"

section \<open>Session lifecycle\<close>

definition cleanup_session :: "string \<Rightarrow> state \<Rightarrow> state" where
  "cleanup_session s st =
     (let st1 = (if active_sessions st s \<noteq> None
                 then st\<lparr>active_sessions := (active_sessions st)(s := None)\<rparr> else st)
      in if session_participants st1 s \<noteq> None
         then st1\<lparr>session_participants := (session_participants st1)(s := None)\<rparr> else st1)"

text \<open>
  The decorator \<open>api_teacher_required\<close>: the response it returns instead of calling the
  route, or \<open>None\<close> when the route runs. \<open>online\<close> is the key set of \<open>online_users\<close>,
  which only the login and logout routes change.
\<close>

definition api_teacher_required :: "string set \<Rightarrow> identity option \<Rightarrow> response option" where
  "api_teacher_required online h =
     (case h of
        None \<Rightarrow> Some (Json_error 401 ''Please log in to access this API'')
      | Some i \<Rightarrow>
          if sess_user_id i = [] then Some (Json_error 401 ''Please log in to access this API'')
          else if sess_user_type i \<noteq> ''teacher''
            then Some (Json_error 403 ''Access denied. Teachers only.'')
          else if sess_user_id i \<notin> online
            then Some (Json_error 401 ''Session expired. Please log in again.'')
          else None)"

text \<open>
  The route \<open>start_live_session\<close>. \<open>lid\<close> is \<open>data.get('lecture_id')\<close>, \<open>lec\<close> the result
  of \<open>db.get_lecture_by_id\<close>, \<open>hex8\<close> the value of \<open>uuid.uuid4().hex[:8]\<close> and \<open>now\<close> the
  value of \<open>datetime.now().isoformat()\<close>.
\<close>

definition start_live_session ::
  "string set \<Rightarrow> identity option \<Rightarrow> string option \<Rightarrow> lecture option \<Rightarrow> string \<Rightarrow> string \<Rightarrow>
   state \<Rightarrow> response \<times> state \<times> emission list" where
  "start_live_session online h lid lec hex8 now st =
     (case api_teacher_required online h of
        Some r \<Rightarrow> (r, st, [])
      | None \<Rightarrow>
         (case h of
            None \<Rightarrow> (Json_error 500 ''user_id'', st, [])
          | Some i \<Rightarrow>
             (case lid of
                None \<Rightarrow> (Json_error 400 ''Lecture ID is required'', st, [])
              | Some l \<Rightarrow>
                 if l = [] then (Json_error 400 ''Lecture ID is required'', st, [])
                 else
                  (case lec of
                     None \<Rightarrow> (Json_error 403 ''Unauthorized'', st, [])
                   | Some row \<Rightarrow>
                      if lec_teacher_id row \<noteq> sess_user_id i
                      then (Json_error 403 ''Unauthorized'', st, [])
                      else
                        let s = ''session_'' @ l @ ''_'' @ hex8;
                            st1 = st\<lparr>active_sessions := (active_sessions st)(s \<mapsto>
                                    \<lparr>lecture_id = l, teacher_id = sess_user_id i,
                                     teacher_name = sess_user_name i,
                                     lecture_title = lec_title row, started_at = now,
                                     status = ''active'', participants = [],
                                     recordings = []\<rparr>)\<rparr>
                        in (Started s, st1,
                            [emit_room ''students'' ''live_session_started''
                               (P_live_session_started s l (lec_title row) (sess_user_name i)
                                  (''/student/join_session/'' @ s))])))))"

section \<open>Socket event handlers\<close>

definition handle_join_session :: "conn \<Rightarrow> data \<Rightarrow> string \<Rightarrow> state \<Rightarrow> state \<times> emission list" where
  "handle_join_session c d now st =
     (case http_session c of
        None \<Rightarrow> (st, [emit_self c ''error'' (P_error ''Authentication required'')])
      | Some i \<Rightarrow>
         (case session_id d of
            None \<Rightarrow> (st, [emit_self c ''error'' (P_error ''Session not found'')])
          | Some s \<Rightarrow>
             if active_sessions st s = None
             then (st, [emit_self c ''error'' (P_error ''Session not found'')])
             else
               let st1 = join_room s c st;
                   old = (case session_participants st1 s of None \<Rightarrow> [] | Some ps \<Rightarrow> ps);
                   ps = AList.update (sess_user_id i)
                          \<lparr>p_user_type = sess_user_type i, p_user_name = sess_user_name i,
                           socket_id = sid c, joined_at = now\<rparr> old;
                   st2 = st1\<lparr>session_participants := (session_participants st1)(s \<mapsto> ps)\<rparr>
               in (st2,
                   [emit_others c s ''user_joined''
                      (P_user_joined (sess_user_id i) (sess_user_name i) (sess_user_type i)
                         (length ps)),
                    emit_self c ''session_info'' (P_session_info s (map snd ps) (length ps))])))"

text \<open>
  The user a \<open>leave_session\<close> event is about:
  \<open>data.get('user_id') or (session.get('user_id') if 'user_id' in session else None)\<close>.
\<close>

definition leave_user_id :: "conn \<Rightarrow> data \<Rightarrow> string option" where
  "leave_user_id c d =
     (if truthy (user_id d) then user_id d
      else (case http_session c of None \<Rightarrow> None | Some i \<Rightarrow> Some (sess_user_id i)))"

definition handle_leave_session :: "conn \<Rightarrow> data \<Rightarrow> state \<Rightarrow> state \<times> emission list" where
  "handle_leave_session c d st =
     (case (session_id d, leave_user_id c d) of
        (Some s, Some u) \<Rightarrow>
          if s = [] \<or> u = [] then (st, [])
          else
            let st1 = leave_room s c st in
            (case session_participants st1 s of
               None \<Rightarrow> (st1, [])
             | Some ps \<Rightarrow>
                if map_of ps u = None then (st1, [])
                else
                  let ps' = AList.delete u ps;
                      st2 = st1\<lparr>session_participants := (session_participants st1)(s \<mapsto> ps')\<rparr>;
                      participants_count = length ps';
                      left = emit_room s ''user_left'' (P_user_left u participants_count)
                  in if participants_count = 0
                     then (case active_sessions st2 s of
                             None \<Rightarrow> (st2, [left])
                           | Some info \<Rightarrow>
                              (st2\<lparr>active_sessions :=
                                      (active_sessions st2)(s \<mapsto> info\<lparr>status := ''ended''\<rparr>),
                                    timers := timers st2 @
                                      [\<lparr>interval = 5, timer_session = s, fired = False\<rparr>]\<rparr>,
                               [left, emit_room s ''session_ended'' P_session_ended]))
                     else (st2, [left]))
      | _ \<Rightarrow> (st, []))"

text \<open>
  The three relay handlers share one shape; \<open>relay\<close> is that shape, with the event name
  and the payload built from \<open>from_user_id\<close> and the forwarded field as parameters.
\<close>

definition relay ::
  "string \<Rightarrow> (string option \<Rightarrow> string option \<Rightarrow> payload) \<Rightarrow> string option \<Rightarrow>
   conn \<Rightarrow> data \<Rightarrow> state \<Rightarrow> state \<times> emission list" where
  "relay ev mk field c d st =
     (case (session_id d, target_user_id d) of
        (Some s, Some t) \<Rightarrow>
          if s = [] \<or> t = [] then (st, [emit_self c ''error'' (P_error ''Invalid signaling data'')])
          else
            (case session_participants st s of
               None \<Rightarrow> (st, [emit_self c ''error'' (P_error ''Invalid signaling data'')])
             | Some ps \<Rightarrow>
                (case map_of ps t of
                   None \<Rightarrow> (st, [emit_self c ''error'' (P_error ''Target not found'')])
                 | Some target \<Rightarrow>
                    (st, [emit_room (socket_id target) ev (mk (from_user_id d) field)])))
      | _ \<Rightarrow> (st, [emit_self c ''error'' (P_error ''Invalid signaling data'')]))"

definition handle_webrtc_offer :: "conn \<Rightarrow> data \<Rightarrow> state \<Rightarrow> state \<times> emission list" where
  "handle_webrtc_offer c d st = relay ''webrtc_offer'' P_offer (offer d) c d st"

definition handle_webrtc_answer :: "conn \<Rightarrow> data \<Rightarrow> state \<Rightarrow> state \<times> emission list" where
  "handle_webrtc_answer c d st = relay ''webrtc_answer'' P_answer (answer d) c d st"

definition handle_ice_candidate :: "conn \<Rightarrow> data \<Rightarrow> state \<Rightarrow> state \<times> emission list" where
  "handle_ice_candidate c d st = relay ''ice_candidate'' P_candidate (candidate d) c d st"

definition handle_chat_message :: "conn \<Rightarrow> data \<Rightarrow> state \<Rightarrow> state \<times> emission list" where
  "handle_chat_message c d st =
     (case session_id d of
        None \<Rightarrow> (st, [])
      | Some s \<Rightarrow> if s = [] then (st, []) else (st, [emit_room s ''chat_message'' (P_chat d)]))"

text \<open>
  The \<open>k\<close>-th started timer fires, if it has not fired yet: \<open>cleanup_session\<close> runs for
  its session. The source keeps no reference to a started timer, so no handler can cancel
  one: \<open>timers\<close> lists every timer ever started, and firing is all that changes an entry.
\<close>

definition timer_fire :: "nat \<Rightarrow> state \<Rightarrow> state \<times> emission list" where
  "timer_fire k st =
     (if k < length (timers st) \<and> \<not> fired (timers st ! k)
      then (cleanup_session (timer_session (timers st ! k))
              (st\<lparr>timers := (timers st)[k := (timers st ! k)\<lparr>fired := True\<rparr>]\<rparr>), [])
      else (st, []))"

section \<open>Traces\<close>

datatype ev =
    Ev_start "string set" "identity option" "string option" "lecture option" string string
  | Ev_join conn data string
  | Ev_leave conn data
  | Ev_offer conn data
  | Ev_answer conn data
  | Ev_ice conn data
  | Ev_chat conn data
  | Ev_timer nat

fun step :: "ev \<Rightarrow> state \<Rightarrow> state \<times> emission list" where
  "step (Ev_start online h lid lec hex8 now) st = snd (start_live_session online h lid lec hex8 now st)"
| "step (Ev_join c d now) st = handle_join_session c d now st"
| "step (Ev_leave c d) st = handle_leave_session c d st"
| "step (Ev_offer c d) st = handle_webrtc_offer c d st"
| "step (Ev_answer c d) st = handle_webrtc_answer c d st"
| "step (Ev_ice c d) st = handle_ice_candidate c d st"
| "step (Ev_chat c d) st = handle_chat_message c d st"
| "step (Ev_timer k) st = timer_fire k st"

text \<open>
  Running a trace: the final state and everything emitted, in order. In such a run the
  events are handled one at a time, each handler and each timer callback running to its
  end before the next begins.
\<close>

fun run :: "ev list \<Rightarrow> state \<Rightarrow> state \<times> emission list" where
  "run [] st = (st, [])"
| "run (e # es) st =
     (let (st1, out1) = step e st; (st2, out2) = run es st1 in (st2, out1 @ out2))"

text \<open>
  The states of sequential runs: \<open>reachable\<close> takes every handler and every timer callback
  as one indivisible step. The source gives no such guarantee. It runs the handlers with
  \<open>async_mode='threading'\<close> and \<open>cleanup_session\<close> on the thread of a
  \<open>threading.Timer\<close>, and takes no lock; the section on interleaved runs below models a
  handler that is overtaken between two of its statements.
\<close>

inductive reachable :: "state \<Rightarrow> bool" where
  reachable_init: "reachable init_state"
| reachable_step: "reachable st \<Longrightarrow> reachable (fst (step e st))"

section \<open>Interleaved runs\<close>

text \<open>
  \<open>handle_join_session\<close> in two parts, cut after the test
  \<open>if session_id not in active_sessions\<close>. \<open>join_check\<close> is the handler up to and
  including that test: it returns the handler's result when the handler returns early,
  and otherwise the values of \<open>session\<close> and \<open>session_id\<close> that the rest of the body
  uses. \<open>join_write\<close> is the rest: \<open>join_room\<close>, the write to
  \<open>session_participants\<close> and the two emits.
\<close>

definition join_check ::
  "conn \<Rightarrow> data \<Rightarrow> state \<Rightarrow> (state \<times> emission list) + (identity \<times> string)" where
  "join_check c d st =
     (case http_session c of
        None \<Rightarrow> Inl (st, [emit_self c ''error'' (P_error ''Authentication required'')])
      | Some i \<Rightarrow>
         (case session_id d of
            None \<Rightarrow> Inl (st, [emit_self c ''error'' (P_error ''Session not found'')])
          | Some s \<Rightarrow>
             if active_sessions st s = None
             then Inl (st, [emit_self c ''error'' (P_error ''Session not found'')])
             else Inr (i, s)))"

definition join_write ::
  "conn \<Rightarrow> identity \<Rightarrow> string \<Rightarrow> string \<Rightarrow> state \<Rightarrow> state \<times> emission list" where
  "join_write c i s now st =
     (let st1 = join_room s c st;
          old = (case session_participants st1 s of None \<Rightarrow> [] | Some ps \<Rightarrow> ps);
          ps = AList.update (sess_user_id i)
                 \<lparr>p_user_type = sess_user_type i, p_user_name = sess_user_name i,
                  socket_id = sid c, joined_at = now\<rparr> old;
          st2 = st1\<lparr>session_participants := (session_participants st1)(s \<mapsto> ps)\<rparr>
      in (st2,
          [emit_others c s ''user_joined''
             (P_user_joined (sess_user_id i) (sess_user_name i) (sess_user_type i) (length ps)),
           emit_self c ''session_info'' (P_session_info s (map snd ps) (length ps))]))"

text \<open>
  A run in which a join may be overtaken. Besides the shared state there is the list of
  joins that have passed their test and not yet written. A thread step is a whole event
  of a sequential run, the first part of a join, or the second part of the \<open>k\<close>-th
  waiting join. Only the join is cut, and only at one place, so every state of such a run
  is a state the threads of the source can produce.
\<close>

type_synonym waiting_join = "conn \<times> identity \<times> string"

datatype thread_ev =
    T_whole ev
  | T_join_check conn data
  | T_join_write nat string

fun thread_step :: "thread_ev \<Rightarrow> state \<times> waiting_join list \<Rightarrow> state \<times> waiting_join list" where
  "thread_step (T_whole e) (st, ws) = (fst (step e st), ws)"
| "thread_step (T_join_check c d) (st, ws) =
     (case join_check c d st of
        Inl res \<Rightarrow> (fst res, ws)
      | Inr (i, s) \<Rightarrow> (st, ws @ [(c, i, s)]))"
| "thread_step (T_join_write k now) (st, ws) =
     (if k < length ws
      then (case ws ! k of
              (c, i, s) \<Rightarrow> (fst (join_write c i s now st), take k ws @ drop (Suc k) ws))
      else (st, ws))"

fun run_threads :: "thread_ev list \<Rightarrow> state \<times> waiting_join list \<Rightarrow> state \<times> waiting_join list" where
  "run_threads [] cfg = cfg"
| "run_threads (e # es) cfg = run_threads es (thread_step e cfg)"


section \<open>Observations on states and emissions\<close>

text \<open>The participant count of a session: \<open>len(session_participants[s])\<close>, zero if absent.\<close>

definition member_count :: "state \<Rightarrow> string \<Rightarrow> nat" where
  "member_count st s = (case session_participants st s of None \<Rightarrow> 0 | Some ps \<Rightarrow> length ps)"

text \<open>
  User \<open>u\<close> holds a membership in session \<open>s\<close>:
  \<open>s in session_participants and u in session_participants[s]\<close>.
\<close>

definition is_member :: "state \<Rightarrow> string \<Rightarrow> string \<Rightarrow> bool" where
  "is_member st s u =
     (case session_participants st s of None \<Rightarrow> False | Some ps \<Rightarrow> map_of ps u \<noteq> None)"

text \<open>The number of \<open>session_ended\<close> broadcasts addressed to the room of session \<open>s\<close>.\<close>

definition session_ended_count :: "string \<Rightarrow> emission list \<Rightarrow> nat" where
  "session_ended_count s out =
     length (filter (\<lambda>e. event e = ''session_ended'' \<and> room e = s) out)"

text \<open>The emissions that carry something other than an \<open>error\<close> report.\<close>

definition delivered :: "emission list \<Rightarrow> emission list" where
  "delivered out = filter (\<lambda>e. event e \<noteq> ''error'') out"

text \<open>
  The handler did nothing but report an error to the sender: the state is the same and
  the only emission is an \<open>error\<close> event addressed to the sender's own socket.
\<close>

definition reports_error_only :: "conn \<Rightarrow> state \<Rightarrow> state \<times> emission list \<Rightarrow> bool" where
  "reports_error_only c st res =
     (case res of
        (st', [e]) \<Rightarrow> st' = st \<and> event e = ''error'' \<and> room e = sid c \<and> skip_sid e = None
      | _ \<Rightarrow> False)"

text \<open>The four messages of the handlers, under the names the error taxonomy gives them.\<close>

datatype relay_error =
  SessionNotFound | TargetNotFound | AuthenticationRequired | InvalidSignalingData

definition error_kind :: "emission \<Rightarrow> relay_error option" where
  "error_kind e =
     (if event e \<noteq> ''error'' then None
      else (case body e of
              P_error m \<Rightarrow>
                if m = ''Session not found'' then Some SessionNotFound
                else if m = ''Target not found'' then Some TargetNotFound
                else if m = ''Authentication required'' then Some AuthenticationRequired
                else if m = ''Invalid signaling data'' then Some InvalidSignalingData
                else None
            | _ \<Rightarrow> None))"

text \<open>The session and the count that a notification reports, if it reports one.\<close>

definition reported_count :: "emission \<Rightarrow> (string \<times> nat) option" where
  "reported_count e =
     (case body e of
        P_user_joined u n t k \<Rightarrow> Some (room e, k)
      | P_session_info s ps k \<Rightarrow> Some (s, k)
      | P_user_left u k \<Rightarrow> Some (room e, k)
      | _ \<Rightarrow> None)"

section \<open>Invariants of the two dictionaries\<close>

definition tracker_in_registry :: "state \<Rightarrow> bool" where
  "tracker_in_registry st = (dom (session_participants st) \<subseteq> dom (active_sessions st))"

definition participants_untouched :: "state \<Rightarrow> bool" where
  "participants_untouched st =
     (\<forall>s info. active_sessions st s = Some info \<longrightarrow> participants info = [])"

definition session_ids_nonempty :: "state \<Rightarrow> bool" where
  "session_ids_nonempty st = (\<forall>s. active_sessions st s \<noteq> None \<longrightarrow> s \<noteq> [])"

definition members_distinct :: "state \<Rightarrow> bool" where
  "members_distinct st =
     (\<forall>s ps. session_participants st s = Some ps \<longrightarrow> distinct (map fst ps))"

section \<open>A concrete classroom\<close>

text \<open>
  Teacher \<open>T1\<close> starts a session for lecture \<open>L1\<close>; the teacher and student \<open>U1\<close> use it.
  A third connection never logged in.
\<close>

definition T1 :: identity where
  "T1 = \<lparr>sess_user_id = ''T1'', sess_user_type = ''teacher'', sess_user_name = ''Tara''\<rparr>"

definition U1 :: identity where
  "U1 = \<lparr>sess_user_id = ''U1'', sess_user_type = ''student'', sess_user_name = ''Uma''\<rparr>"

definition conn_T1 :: conn where
  "conn_T1 = \<lparr>sid = ''sockT'', http_session = Some T1\<rparr>"

definition conn_T1_again :: conn where
  "conn_T1_again = \<lparr>sid = ''sockT2'', http_session = Some T1\<rparr>"

definition conn_U1 :: conn where
  "conn_U1 = \<lparr>sid = ''sockU'', http_session = Some U1\<rparr>"

definition conn_anon :: conn where
  "conn_anon = \<lparr>sid = ''sockX'', http_session = None\<rparr>"

definition S1 :: string where
  "S1 = ''session_L1_0a1b2c3d''"

definition no_data :: data where
  "no_data = \<lparr>session_id = None, user_id = None, target_user_id = None, from_user_id = None,
     offer = None, answer = None, candidate = None, message = None\<rparr>"

definition in_S1 :: data where
  "in_S1 = no_data\<lparr>session_id := Some S1\<rparr>"

definition signal_to :: "string \<Rightarrow> string \<Rightarrow> data" where
  "signal_to s t = no_data\<lparr>session_id := Some s, target_user_id := Some t,
     from_user_id := Some ''U1'', offer := Some ''sdp-offer'', answer := Some ''sdp-answer'',
     candidate := Some ''ice''\<rparr>"

definition start_S1 :: ev where
  "start_S1 = Ev_start {''T1''} (Some T1) (Some ''L1'')
     (Some \<lparr>lec_teacher_id = ''T1'', lec_title = ''Algebra''\<rparr>) ''0a1b2c3d'' ''09:00''"

definition st_teacher_in :: state where
  "st_teacher_in = fst (run [start_S1, Ev_join conn_T1 in_S1 ''09:01''] init_state)"

text \<open>
  The teacher leaves \<open>S1\<close> as its last member, which starts the cleanup timer. Student
  \<open>U1\<close> sends \<open>join_session\<close> five seconds later: the handler passes its test, the
  timer fires and runs \<open>cleanup_session\<close>, and the handler goes on.
\<close>

definition race_trace :: "thread_ev list" where
  "race_trace = [T_whole start_S1, T_whole (Ev_join conn_T1 in_S1 ''09:01:00''),
     T_whole (Ev_leave conn_T1 in_S1), T_join_check conn_U1 in_S1, T_whole (Ev_timer 0),
     T_join_write 0 ''09:01:05'']"

text \<open>The teacher joins, leaves, joins again two seconds later and leaves again.\<close>

definition rejoin_trace :: "ev list" where
  "rejoin_trace = [start_S1, Ev_join conn_T1 in_S1 ''09:01:00'', Ev_leave conn_T1 in_S1,
     Ev_join conn_T1 in_S1 ''09:01:02'', Ev_leave conn_T1 in_S1]"


section \<open>Basic facts about the handlers\<close>

lemmas emit_defs = emit_self_def emit_room_def emit_others_def

lemmas relay_defs = handle_webrtc_offer_def handle_webrtc_answer_def handle_ice_candidate_def
  relay_def

lemmas classroom_defs = T1_def U1_def conn_T1_def conn_T1_again_def conn_U1_def conn_anon_def
  S1_def no_data_def in_S1_def signal_to_def start_S1_def st_teacher_in_def
  init_state_def

lemmas exec_defs = start_live_session_def api_teacher_required_def handle_join_session_def
  handle_leave_session_def leave_user_id_def truthy_def relay_defs handle_chat_message_def
  timer_fire_def cleanup_session_def join_room_def leave_room_def emit_defs Let_def

lemma cleanup_session_registry:
  "active_sessions (cleanup_session s st) = (active_sessions st)(s := None)"
  by (auto simp: cleanup_session_def Let_def)

lemma cleanup_session_tracker:
  "session_participants (cleanup_session s st) = (session_participants st)(s := None)"
  by (auto simp: cleanup_session_def Let_def)

lemma cleanup_session_timers: "timers (cleanup_session s st) = timers st"
  by (simp add: cleanup_session_def Let_def)

lemma relay_state: "fst (relay ev mk x c d st) = st"
  by (simp add: relay_def split: option.splits)

lemma chat_state: "fst (handle_chat_message c d st) = st"
  by (simp add: handle_chat_message_def split: option.splits)

section \<open>The invariants hold in every reachable state\<close>

lemma start_invariants:
  "tracker_in_registry st \<Longrightarrow>
     tracker_in_registry (fst (snd (start_live_session online h lid lec hex8 now st)))"
  "participants_untouched st \<Longrightarrow>
     participants_untouched (fst (snd (start_live_session online h lid lec hex8 now st)))"
  "session_ids_nonempty st \<Longrightarrow>
     session_ids_nonempty (fst (snd (start_live_session online h lid lec hex8 now st)))"
  "members_distinct st \<Longrightarrow>
     members_distinct (fst (snd (start_live_session online h lid lec hex8 now st)))"
  by (auto simp: tracker_in_registry_def participants_untouched_def session_ids_nonempty_def
      members_distinct_def start_live_session_def Let_def split: option.splits if_splits)

lemma join_invariants:
  "tracker_in_registry st \<Longrightarrow> tracker_in_registry (fst (handle_join_session c d now st))"
  "participants_untouched st \<Longrightarrow> participants_untouched (fst (handle_join_session c d now st))"
  "session_ids_nonempty st \<Longrightarrow> session_ids_nonempty (fst (handle_join_session c d now st))"
  "members_distinct st \<Longrightarrow> members_distinct (fst (handle_join_session c d now st))"
  by (auto simp: tracker_in_registry_def participants_untouched_def session_ids_nonempty_def
      members_distinct_def handle_join_session_def join_room_def Let_def distinct_update
      split: option.splits if_splits)

lemma leave_invariants:
  "tracker_in_registry st \<Longrightarrow> tracker_in_registry (fst (handle_leave_session c d st))"
  "participants_untouched st \<Longrightarrow> participants_untouched (fst (handle_leave_session c d st))"
  "session_ids_nonempty st \<Longrightarrow> session_ids_nonempty (fst (handle_leave_session c d st))"
  "members_distinct st \<Longrightarrow> members_distinct (fst (handle_leave_session c d st))"
  by (auto simp: tracker_in_registry_def participants_untouched_def session_ids_nonempty_def
      members_distinct_def handle_leave_session_def leave_room_def Let_def distinct_delete
      split: option.splits if_splits)

lemma cleanup_invariants:
  "tracker_in_registry st \<Longrightarrow> tracker_in_registry (cleanup_session s st)"
  "participants_untouched st \<Longrightarrow> participants_untouched (cleanup_session s st)"
  "session_ids_nonempty st \<Longrightarrow> session_ids_nonempty (cleanup_session s st)"
  "members_distinct st \<Longrightarrow> members_distinct (cleanup_session s st)"
  by (auto simp: tracker_in_registry_def participants_untouched_def session_ids_nonempty_def
      members_distinct_def cleanup_session_registry cleanup_session_tracker split: if_splits)

lemma timer_fire_invariants:
  "tracker_in_registry st \<Longrightarrow> tracker_in_registry (fst (timer_fire k st))"
  "participants_untouched st \<Longrightarrow> participants_untouched (fst (timer_fire k st))"
  "session_ids_nonempty st \<Longrightarrow> session_ids_nonempty (fst (timer_fire k st))"
  "members_distinct st \<Longrightarrow> members_distinct (fst (timer_fire k st))"
  by (auto simp: tracker_in_registry_def participants_untouched_def session_ids_nonempty_def
      members_distinct_def timer_fire_def cleanup_session_registry cleanup_session_tracker
      split: if_splits)

lemma step_tracker_in_registry:
  "tracker_in_registry st \<Longrightarrow> tracker_in_registry (fst (step e st))"
  by (cases e)
     (simp_all add: start_invariants join_invariants leave_invariants timer_fire_invariants
        relay_state chat_state handle_webrtc_offer_def handle_webrtc_answer_def
        handle_ice_candidate_def)

lemma step_participants_untouched:
  "participants_untouched st \<Longrightarrow> participants_untouched (fst (step e st))"
  by (cases e)
     (simp_all add: start_invariants join_invariants leave_invariants timer_fire_invariants
        relay_state chat_state handle_webrtc_offer_def handle_webrtc_answer_def
        handle_ice_candidate_def)

lemma step_session_ids_nonempty:
  "session_ids_nonempty st \<Longrightarrow> session_ids_nonempty (fst (step e st))"
  by (cases e)
     (simp_all add: start_invariants join_invariants leave_invariants timer_fire_invariants
        relay_state chat_state handle_webrtc_offer_def handle_webrtc_answer_def
        handle_ice_candidate_def)

lemma step_members_distinct:
  "members_distinct st \<Longrightarrow> members_distinct (fst (step e st))"
  by (cases e)
     (simp_all add: start_invariants join_invariants leave_invariants timer_fire_invariants
        relay_state chat_state handle_webrtc_offer_def handle_webrtc_answer_def
        handle_ice_candidate_def)

lemma reachable_tracker_in_registry: "reachable st \<Longrightarrow> tracker_in_registry st"
proof (induction rule: reachable.induct)
  case reachable_init
  show ?case by (simp add: tracker_in_registry_def init_state_def)
next
  case (reachable_step st e)
  then show ?case by (simp add: step_tracker_in_registry)
qed

lemma reachable_participants_untouched: "reachable st \<Longrightarrow> participants_untouched st"
proof (induction rule: reachable.induct)
  case reachable_init
  show ?case by (simp add: participants_untouched_def init_state_def)
next
  case (reachable_step st e)
  then show ?case by (simp add: step_participants_untouched)
qed

lemma reachable_session_ids_nonempty: "reachable st \<Longrightarrow> session_ids_nonempty st"
proof (induction rule: reachable.induct)
  case reachable_init
  show ?case by (simp add: session_ids_nonempty_def init_state_def)
next
  case (reachable_step st e)
  then show ?case by (simp add: step_session_ids_nonempty)
qed

lemma reachable_members_distinct: "reachable st \<Longrightarrow> members_distinct st"
proof (induction rule: reachable.induct)
  case reachable_init
  show ?case by (simp add: members_distinct_def init_state_def)
next
  case (reachable_step st e)
  then show ?case by (simp add: step_members_distinct)
qed

lemma run_Cons_fst: "fst (run (e # es) st) = fst (run es (fst (step e st)))"
  by (simp add: split_def Let_def)

lemma run_Cons_snd: "snd (run (e # es) st) = snd (step e st) @ snd (run es (fst (step e st)))"
  by (simp add: split_def Let_def)

lemma reachable_run: "reachable st \<Longrightarrow> reachable (fst (run es st))"
proof (induction es arbitrary: st)
  case Nil
  then show ?case by simp
next
  case (Cons e es)
  from Cons.prems have "reachable (fst (step e st))" by (rule reachable_step)
  then have "reachable (fst (run es (fst (step e st))))" by (rule Cons.IH)
  then show ?case by (simp only: run_Cons_fst)
qed

lemma reachable_tracked_session:
  assumes "reachable st" and "session_participants st s = Some ps"
  shows "active_sessions st s \<noteq> None" and "s \<noteq> []" and "distinct (map fst ps)"
proof -
  from assms show a: "active_sessions st s \<noteq> None"
    using reachable_tracker_in_registry [of st] by (auto simp: tracker_in_registry_def)
  from assms(1) a show "s \<noteq> []"
    using reachable_session_ids_nonempty [of st] by (simp add: session_ids_nonempty_def)
  from assms show "distinct (map fst ps)"
    using reachable_members_distinct [of st] by (simp add: members_distinct_def)
qed

lemma reachable_classroom: "reachable st_teacher_in"
  unfolding st_teacher_in_def by (rule reachable_run [OF reachable_init])

section \<open>Started timers\<close>

lemma step_keeps_timer:
  assumes "k < length (timers st)" and "e \<noteq> Ev_timer k"
  shows "k < length (timers (fst (step e st))) \<and> timers (fst (step e st)) ! k = timers st ! k"
proof (cases e)
  case (Ev_start online h lid lec hex8 now)
  with assms(1) show ?thesis
    by (simp add: start_live_session_def Let_def split: option.splits)
next
  case (Ev_join c d now)
  with assms(1) show ?thesis
    by (simp add: handle_join_session_def join_room_def Let_def split: option.splits)
next
  case (Ev_leave c d)
  with assms(1) show ?thesis
    by (simp add: handle_leave_session_def leave_room_def Let_def nth_append
        split: option.splits)
next
  case (Ev_timer j)
  with assms show ?thesis
    by (simp add: timer_fire_def cleanup_session_timers)
qed (use assms(1) in \<open>simp_all add: relay_state chat_state handle_webrtc_offer_def
      handle_webrtc_answer_def handle_ice_candidate_def\<close>)

lemma run_keeps_timer:
  "k < length (timers st) \<Longrightarrow> Ev_timer k \<notin> set es \<Longrightarrow>
   k < length (timers (fst (run es st))) \<and> timers (fst (run es st)) ! k = timers st ! k"
proof (induction es arbitrary: st)
  case Nil
  then show ?case by simp
next
  case (Cons e es)
  then have "e \<noteq> Ev_timer k" and rest: "Ev_timer k \<notin> set es" by auto
  with Cons.prems(1) have first: "k < length (timers (fst (step e st)))"
    and same: "timers (fst (step e st)) ! k = timers st ! k"
    using step_keeps_timer by blast+
  from Cons.IH [OF first rest] same show ?case by (simp only: run_Cons_fst)
qed

lemma timer_fire_removes:
  "k < length (timers st) \<Longrightarrow> \<not> fired (timers st ! k) \<Longrightarrow>
   timer_session (timers st ! k) = s \<Longrightarrow>
   active_sessions (fst (timer_fire k st)) s = None \<and>
   session_participants (fst (timer_fire k st)) s = None"
  by (simp add: timer_fire_def cleanup_session_registry cleanup_session_tracker)

lemma leave_ended_transition:
  assumes "emit_room s ''session_ended'' P_session_ended \<in> set (snd (handle_leave_session c d st))"
  shows "timers (fst (handle_leave_session c d st)) =
           timers st @ [\<lparr>interval = 5, timer_session = s, fired = False\<rparr>]"
    and "map_option status (active_sessions (fst (handle_leave_session c d st)) s) =
           Some ''ended''"
  using assms
  by (auto simp: handle_leave_session_def leave_room_def emit_room_def Let_def
      split: option.splits if_splits)

section \<open>The two parts of a join\<close>

lemma join_split:
  "handle_join_session c d now st =
     (case join_check c d st of Inl res \<Rightarrow> res | Inr (i, s) \<Rightarrow> join_write c i s now st)"
  by (simp add: handle_join_session_def join_check_def join_write_def split: option.splits)

lemma join_not_overtaken:
  "fst (thread_step (T_join_write (length ws) now) (thread_step (T_join_check c d) (st, ws))) =
     fst (handle_join_session c d now st)"
  by (simp add: join_split split: sum.splits prod.splits)

lemma run_threads_whole:
  "run_threads (map T_whole es) (st, ws) = (fst (run es st), ws)"
proof (induction es arbitrary: st)
  case Nil
  show ?case by simp
next
  case (Cons e es)
  show ?case by (simp only: list.map run_threads.simps thread_step.simps Cons.IH run_Cons_fst)
qed

section \<open>Claim C1: the last member leaves\<close>

text \<open>
  C1 (amended). In a reachable state, let session \<open>s\<close> be present in the room registry and
  let a \<open>leave_session\<close> event for a non-empty user id \<open>u\<close> remove the last remaining
  membership of \<open>s\<close>. Then the status of \<open>s\<close> becomes \<open>ended\<close>, its participant count is
  zero, and the handler emits \<open>user_left\<close> followed by exactly one \<open>session_ended\<close>
  broadcast to the room of \<open>s\<close>. This holds at every such leave: the handler does not
  look at the status, so a session that is joined again before its cleanup and emptied
  again is ended and announced again.
\<close>

theorem last_leave_ends_session:
  assumes "reachable st"
    and "active_sessions st s = Some info"
    and "session_id d = Some s" and "leave_user_id c d = Some u" and "u \<noteq> []"
    and "session_participants st s = Some ps"
    and "map_of ps u \<noteq> None" and "AList.delete u ps = []"
  shows "active_sessions (fst (handle_leave_session c d st)) s = Some (info\<lparr>status := ''ended''\<rparr>)
       \<and> member_count (fst (handle_leave_session c d st)) s = 0
       \<and> snd (handle_leave_session c d st) =
           [emit_room s ''user_left'' (P_user_left u 0),
            emit_room s ''session_ended'' P_session_ended]
       \<and> session_ended_count s (snd (handle_leave_session c d st)) = 1"
proof -
  from assms(1,6) have "s \<noteq> []" by (rule reachable_tracked_session)
  with assms(2-8) show ?thesis
    by (auto simp: handle_leave_session_def leave_room_def emit_room_def Let_def
        member_count_def session_ended_count_def)
qed

text \<open>
  The theorem at the teacher's leave from the session in which only the teacher is a member.
\<close>

theorem last_leave_ends_session_witness:
  "(reachable st_teacher_in
    \<and> active_sessions st_teacher_in S1 = Some
        \<lparr>lecture_id = ''L1'', teacher_id = ''T1'', teacher_name = ''Tara'',
         lecture_title = ''Algebra'', started_at = ''09:00'', status = ''active'',
         participants = [], recordings = []\<rparr>
    \<and> session_id in_S1 = Some S1 \<and> leave_user_id conn_T1 in_S1 = Some ''T1'' \<and> ''T1'' \<noteq> []
    \<and> session_participants st_teacher_in S1 = Some
        [(''T1'', \<lparr>p_user_type = ''teacher'', p_user_name = ''Tara'', socket_id = ''sockT'',
                   joined_at = ''09:01''\<rparr>)]
    \<and> map_of [(''T1'', \<lparr>p_user_type = ''teacher'', p_user_name = ''Tara'',
                 socket_id = ''sockT'', joined_at = ''09:01''\<rparr>)] ''T1'' \<noteq> None
    \<and> AList.delete ''T1'' [(''T1'', \<lparr>p_user_type = ''teacher'', p_user_name = ''Tara'',
                 socket_id = ''sockT'', joined_at = ''09:01''\<rparr>)] = [])
   \<and> session_ended_count S1 (snd (handle_leave_session conn_T1 in_S1 st_teacher_in)) = 1"
proof -
  have r: "reachable st_teacher_in" by (rule reachable_classroom)
  have a: "active_sessions st_teacher_in S1 = Some
        \<lparr>lecture_id = ''L1'', teacher_id = ''T1'', teacher_name = ''Tara'',
         lecture_title = ''Algebra'', started_at = ''09:00'', status = ''active'',
         participants = [], recordings = []\<rparr>"
    by (simp add: exec_defs classroom_defs)
  have d: "session_id in_S1 = Some S1" by (simp add: classroom_defs)
  have u: "leave_user_id conn_T1 in_S1 = Some ''T1''" by (simp add: exec_defs classroom_defs)
  have n: "''T1'' \<noteq> []" by simp
  have p: "session_participants st_teacher_in S1 = Some
        [(''T1'', \<lparr>p_user_type = ''teacher'', p_user_name = ''Tara'', socket_id = ''sockT'',
                   joined_at = ''09:01''\<rparr>)]"
    by (simp add: exec_defs classroom_defs)
  have m: "map_of [(''T1'', \<lparr>p_user_type = ''teacher'', p_user_name = ''Tara'',
                 socket_id = ''sockT'', joined_at = ''09:01''\<rparr>)] ''T1'' \<noteq> None" by simp
  have e: "AList.delete ''T1'' [(''T1'', \<lparr>p_user_type = ''teacher'', p_user_name = ''Tara'',
                 socket_id = ''sockT'', joined_at = ''09:01''\<rparr>)] = []" by simp
  from last_leave_ends_session [OF r a d u n p m e] r a d u n p m e show ?thesis by blast
qed

text \<open>
  C1 as stated fails: along \<open>rejoin_trace\<close>, in which no cleanup timer fires, the room of
  \<open>S1\<close> receives more than one \<open>session_ended\<close> broadcast.
\<close>

theorem session_ended_twice:
  "\<not> session_ended_count S1 (snd (run rejoin_trace init_state)) \<le> 1"
  by (simp add: rejoin_trace_def exec_defs classroom_defs session_ended_count_def)

section \<open>Claim C2: the cleanup timer\<close>

text \<open>
  C2. When a \<open>leave_session\<close> event ends session \<open>s\<close> (it emits \<open>session_ended\<close> to the
  room of \<open>s\<close> and the status of \<open>s\<close> is \<open>ended\<close>), a timer with interval 5 that runs
  \<open>cleanup_session s\<close> is started, whatever else holds. Nothing cancels it: after any
  events \<open>es\<close> in which this timer does not fire, joins to \<open>s\<close> included, it is still
  pending with the same interval and session, and when it fires neither the room registry
  nor the participant tracker has an entry for \<open>s\<close>.
\<close>

theorem cleanup_scheduled_never_cancelled:
  assumes "emit_room s ''session_ended'' P_session_ended
             \<in> set (snd (handle_leave_session c d st))"
    and "Ev_timer (length (timers st)) \<notin> set es"
  shows "map_option status (active_sessions (fst (handle_leave_session c d st)) s) =
           Some ''ended''
       \<and> timers (fst (handle_leave_session c d st)) =
           timers st @ [\<lparr>interval = 5, timer_session = s, fired = False\<rparr>]
       \<and> length (timers st) < length (timers (fst (run es (fst (handle_leave_session c d st)))))
       \<and> timers (fst (run es (fst (handle_leave_session c d st)))) ! length (timers st) =
           \<lparr>interval = 5, timer_session = s, fired = False\<rparr>
       \<and> active_sessions (fst (timer_fire (length (timers st))
           (fst (run es (fst (handle_leave_session c d st)))))) s = None
       \<and> session_participants (fst (timer_fire (length (timers st))
           (fst (run es (fst (handle_leave_session c d st)))))) s = None"
proof -
  let ?st1 = "fst (handle_leave_session c d st)"
  let ?st2 = "fst (run es ?st1)"
  let ?k = "length (timers st)"
  have ended: "map_option status (active_sessions ?st1 s) = Some ''ended''"
    and scheduled: "timers ?st1 = timers st @ [\<lparr>interval = 5, timer_session = s, fired = False\<rparr>]"
    using assms(1) by (rule leave_ended_transition)+
  then have "?k < length (timers ?st1)"
    and "timers ?st1 ! ?k = \<lparr>interval = 5, timer_session = s, fired = False\<rparr>"
    by simp_all
  with run_keeps_timer [of ?k ?st1 es] assms(2) have pending: "?k < length (timers ?st2)"
    and mine: "timers ?st2 ! ?k = \<lparr>interval = 5, timer_session = s, fired = False\<rparr>"
    by simp_all
  from mine have "\<not> fired (timers ?st2 ! ?k)" and "timer_session (timers ?st2 ! ?k) = s"
    by simp_all
  with pending have "active_sessions (fst (timer_fire ?k ?st2)) s = None
      \<and> session_participants (fst (timer_fire ?k ?st2)) s = None"
    by (rule timer_fire_removes)
  with ended scheduled pending mine show ?thesis by simp
qed

text \<open>
  The theorem where student \<open>U1\<close> joins between the end of \<open>S1\<close> and the firing of its
  timer: the membership of \<open>U1\<close> is there before the timer fires and gone after.
\<close>

theorem cleanup_scheduled_never_cancelled_witness:
  "(emit_room S1 ''session_ended'' P_session_ended
       \<in> set (snd (handle_leave_session conn_T1 in_S1 st_teacher_in))
    \<and> Ev_timer (length (timers st_teacher_in)) \<notin> set [Ev_join conn_U1 in_S1 ''09:01:02''])
   \<and> member_count
        (fst (run [Ev_join conn_U1 in_S1 ''09:01:02'']
           (fst (handle_leave_session conn_T1 in_S1 st_teacher_in)))) S1 = 1
   \<and> session_participants (fst (timer_fire (length (timers st_teacher_in))
        (fst (run [Ev_join conn_U1 in_S1 ''09:01:02'']
           (fst (handle_leave_session conn_T1 in_S1 st_teacher_in)))))) S1 = None
   \<and> active_sessions (fst (timer_fire (length (timers st_teacher_in))
        (fst (run [Ev_join conn_U1 in_S1 ''09:01:02'']
           (fst (handle_leave_session conn_T1 in_S1 st_teacher_in)))))) S1 = None"
proof -
  have ended: "emit_room S1 ''session_ended'' P_session_ended
       \<in> set (snd (handle_leave_session conn_T1 in_S1 st_teacher_in))"
    by (simp add: exec_defs classroom_defs)
  have between:
    "Ev_timer (length (timers st_teacher_in)) \<notin> set [Ev_join conn_U1 in_S1 ''09:01:02'']"
    by simp
  have joined: "member_count
        (fst (run [Ev_join conn_U1 in_S1 ''09:01:02'']
           (fst (handle_leave_session conn_T1 in_S1 st_teacher_in)))) S1 = 1"
    by (simp add: exec_defs classroom_defs member_count_def)
  from cleanup_scheduled_never_cancelled [OF ended between] ended between joined
  show ?thesis by blast
qed

section \<open>Claim C3: offer for an unknown session\<close>

text \<open>
  C3 as stated fails: for the session id \<open>S_missing\<close>, which the tracker does not hold, the
  error reported by \<open>handle_webrtc_offer\<close> is not \<open>SessionNotFound\<close>.
\<close>

theorem offer_unknown_session_is_not_reported_not_found:
  "map error_kind (snd (handle_webrtc_offer conn_U1 (signal_to ''S_missing'' ''T1'')
      st_teacher_in)) \<noteq> [Some SessionNotFound]"
  by (simp add: exec_defs classroom_defs error_kind_def)

text \<open>
  C3 (amended). For every \<open>webrtc_offer\<close> event whose session id is not registered in the
  participant tracker, the state is unchanged, the only emission is an \<open>error\<close> event with
  the message \<open>Invalid signaling data\<close> (the kind \<open>InvalidSignalingData\<close>) addressed to
  the sender, and no message is delivered to anyone.
\<close>

theorem offer_unknown_session_invalid:
  assumes "\<And>s. session_id d = Some s \<Longrightarrow> session_participants st s = None"
  shows "handle_webrtc_offer c d st =
           (st, [emit_self c ''error'' (P_error ''Invalid signaling data'')])
       \<and> map error_kind (snd (handle_webrtc_offer c d st)) = [Some InvalidSignalingData]
       \<and> delivered (snd (handle_webrtc_offer c d st)) = []"
proof -
  have "handle_webrtc_offer c d st =
          (st, [emit_self c ''error'' (P_error ''Invalid signaling data'')])"
    using assms by (auto simp: handle_webrtc_offer_def relay_def split: option.splits)
  then show ?thesis by (simp add: error_kind_def delivered_def emit_self_def)
qed

text \<open>
  The theorem at the offer of \<open>U1\<close> for \<open>S_missing\<close>.
\<close>

theorem offer_unknown_session_invalid_witness:
  "session_participants st_teacher_in ''S_missing'' = None
   \<and> handle_webrtc_offer conn_U1 (signal_to ''S_missing'' ''T1'') st_teacher_in =
       (st_teacher_in, [emit_self conn_U1 ''error'' (P_error ''Invalid signaling data'')])"
proof -
  have absent: "session_participants st_teacher_in ''S_missing'' = None"
    by (simp add: exec_defs classroom_defs)
  have "\<And>s. session_id (signal_to ''S_missing'' ''T1'') = Some s \<Longrightarrow>
      session_participants st_teacher_in s = None"
    using absent by (simp add: signal_to_def no_data_def)
  from offer_unknown_session_invalid [OF this] absent show ?thesis by blast
qed

section \<open>Claim C4: events without an identity\<close>

text \<open>
  C4 as stated fails: a connection without an identity that sends \<open>webrtc_offer\<close>,
  \<open>webrtc_answer\<close>, \<open>ice_candidate\<close>, \<open>chat_message\<close> or \<open>leave_session\<close> does not get
  an error report as the only outcome.
\<close>

theorem anonymous_events_take_effect:
  "\<not> reports_error_only conn_anon st_teacher_in
        (handle_webrtc_offer conn_anon (signal_to S1 ''T1'') st_teacher_in)
   \<and> \<not> reports_error_only conn_anon st_teacher_in
        (handle_webrtc_answer conn_anon (signal_to S1 ''T1'') st_teacher_in)
   \<and> \<not> reports_error_only conn_anon st_teacher_in
        (handle_ice_candidate conn_anon (signal_to S1 ''T1'') st_teacher_in)
   \<and> \<not> reports_error_only conn_anon st_teacher_in
        (handle_chat_message conn_anon in_S1 st_teacher_in)
   \<and> \<not> reports_error_only conn_anon st_teacher_in
        (handle_leave_session conn_anon (in_S1\<lparr>user_id := Some ''T1''\<rparr>) st_teacher_in)
   \<and> \<not> reports_error_only conn_anon st_teacher_in
        (handle_leave_session conn_anon in_S1 st_teacher_in)"
  by (simp add: reports_error_only_def exec_defs classroom_defs)

text \<open>
  C4 (amended). For every \<open>join_session\<close> event received from a connection without an
  established identity, an \<open>error\<close> event with the message \<open>Authentication required\<close> is
  reported to the sender and the event has no other effect: the state is unchanged and
  nothing else is emitted.
\<close>

theorem anonymous_join_rejected:
  assumes "http_session c = None"
  shows "handle_join_session c d now st =
           (st, [emit_self c ''error'' (P_error ''Authentication required'')])
       \<and> reports_error_only c st (handle_join_session c d now st)
       \<and> map error_kind (snd (handle_join_session c d now st)) = [Some AuthenticationRequired]"
  using assms
  by (simp add: handle_join_session_def reports_error_only_def error_kind_def emit_self_def)

text \<open>
  The theorem at the connection that never logged in.
\<close>

theorem anonymous_join_rejected_witness:
  "http_session conn_anon = None
   \<and> handle_join_session conn_anon in_S1 ''09:02'' st_teacher_in =
       (st_teacher_in, [emit_self conn_anon ''error'' (P_error ''Authentication required'')])"
proof -
  have anon: "http_session conn_anon = None" by (simp add: conn_anon_def)
  from anonymous_join_rejected [OF anon] anon show ?thesis by blast
qed

section \<open>Claim C5: relay to a user who is not a member\<close>

text \<open>
  C5. In a reachable state, for every \<open>webrtc_offer\<close>, \<open>webrtc_answer\<close> and
  \<open>ice_candidate\<close> event that names a session held by the participant tracker and a
  (non-empty) target user id with no membership in that session, the state is unchanged
  and the only emission is an \<open>error\<close> event with the message \<open>Target not found\<close>
  (the kind \<open>TargetNotFound\<close>) addressed to the sender's own socket: nothing reaches any
  participant's transport handle.
\<close>

theorem relay_target_not_found:
  assumes "reachable st"
    and "session_id d = Some s" and "session_participants st s = Some ps"
    and "target_user_id d = Some t" and "t \<noteq> []" and "map_of ps t = None"
  shows "handle_webrtc_offer c d st =
           (st, [emit_self c ''error'' (P_error ''Target not found'')])
       \<and> handle_webrtc_answer c d st =
           (st, [emit_self c ''error'' (P_error ''Target not found'')])
       \<and> handle_ice_candidate c d st =
           (st, [emit_self c ''error'' (P_error ''Target not found'')])
       \<and> error_kind (emit_self c ''error'' (P_error ''Target not found'')) = Some TargetNotFound
       \<and> room (emit_self c ''error'' (P_error ''Target not found'')) = sid c"
proof -
  from assms(1,3) have "s \<noteq> []" by (rule reachable_tracked_session)
  with assms(2-6) show ?thesis
    by (simp add: relay_defs error_kind_def emit_self_def)
qed

text \<open>
  The theorem at an offer of \<open>U1\<close> for user \<open>U9\<close>, who is not in \<open>S1\<close>.
\<close>

theorem relay_target_not_found_witness:
  "(reachable st_teacher_in \<and> session_id (signal_to S1 ''U9'') = Some S1
    \<and> session_participants st_teacher_in S1 = Some
        [(''T1'', \<lparr>p_user_type = ''teacher'', p_user_name = ''Tara'', socket_id = ''sockT'',
                   joined_at = ''09:01''\<rparr>)]
    \<and> target_user_id (signal_to S1 ''U9'') = Some ''U9'' \<and> ''U9'' \<noteq> []
    \<and> map_of [(''T1'', \<lparr>p_user_type = ''teacher'', p_user_name = ''Tara'',
                 socket_id = ''sockT'', joined_at = ''09:01''\<rparr>)] ''U9'' = None)
   \<and> handle_webrtc_offer conn_U1 (signal_to S1 ''U9'') st_teacher_in =
       (st_teacher_in, [emit_self conn_U1 ''error'' (P_error ''Target not found'')])"
proof -
  have r: "reachable st_teacher_in" by (rule reachable_classroom)
  have d: "session_id (signal_to S1 ''U9'') = Some S1" by (simp add: classroom_defs)
  have p: "session_participants st_teacher_in S1 = Some
        [(''T1'', \<lparr>p_user_type = ''teacher'', p_user_name = ''Tara'', socket_id = ''sockT'',
                   joined_at = ''09:01''\<rparr>)]"
    by (simp add: exec_defs classroom_defs)
  have t: "target_user_id (signal_to S1 ''U9'') = Some ''U9''" by (simp add: classroom_defs)
  have n: "''U9'' \<noteq> []" by simp
  have m: "map_of [(''T1'', \<lparr>p_user_type = ''teacher'', p_user_name = ''Tara'',
                 socket_id = ''sockT'', joined_at = ''09:01''\<rparr>)] ''U9'' = None" by simp
  from relay_target_not_found [OF r d p t n m] r d p t n m show ?thesis by blast
qed

section \<open>Claim C6: joining twice\<close>

text \<open>
  C6. In a reachable state, let user \<open>sess_user_id i\<close> hold a membership in session \<open>s\<close>.
  A second \<open>join_session\<close> by that user stores the new membership record, with the socket
  of the new connection, under the same key: the keys of the session's memberships are
  the same list as before and hold no duplicate, every other membership is unchanged, and
  the participant count of \<open>s\<close> is the same as before.
\<close>

theorem rejoin_overwrites_membership:
  assumes "reachable st"
    and "http_session c = Some i" and "session_id d = Some s"
    and "session_participants st s = Some ps" and "map_of ps (sess_user_id i) = Some old"
  shows "session_participants (fst (handle_join_session c d now st)) s =
           Some (AList.update (sess_user_id i)
                  \<lparr>p_user_type = sess_user_type i, p_user_name = sess_user_name i,
                   socket_id = sid c, joined_at = now\<rparr> ps)
       \<and> map fst (AList.update (sess_user_id i)
                  \<lparr>p_user_type = sess_user_type i, p_user_name = sess_user_name i,
                   socket_id = sid c, joined_at = now\<rparr> ps) = map fst ps
       \<and> distinct (map fst ps)
       \<and> map_of (AList.update (sess_user_id i)
                  \<lparr>p_user_type = sess_user_type i, p_user_name = sess_user_name i,
                   socket_id = sid c, joined_at = now\<rparr> ps) =
           (map_of ps)(sess_user_id i \<mapsto>
                  \<lparr>p_user_type = sess_user_type i, p_user_name = sess_user_name i,
                   socket_id = sid c, joined_at = now\<rparr>)
       \<and> member_count (fst (handle_join_session c d now st)) s = member_count st s"
proof -
  let ?new = "\<lparr>p_user_type = sess_user_type i, p_user_name = sess_user_name i,
                socket_id = sid c, joined_at = now\<rparr>"
  from assms(1,4) have registered: "active_sessions st s \<noteq> None"
    and keys: "distinct (map fst ps)"
    by (rule reachable_tracked_session)+
  from assms(5) have present: "sess_user_id i \<in> fst ` set ps"
    by (metis map_of_eq_None_iff option.distinct(1))
  have tracker: "session_participants (fst (handle_join_session c d now st)) s =
      Some (AList.update (sess_user_id i) ?new ps)"
    using assms(2-4) registered
    by (auto simp: handle_join_session_def join_room_def Let_def)
  from present have same_keys: "map fst (AList.update (sess_user_id i) ?new ps) = map fst ps"
    by (simp add: update_keys)
  then have "length (AList.update (sess_user_id i) ?new ps) = length ps"
    by (metis length_map)
  with tracker assms(4) have count:
    "member_count (fst (handle_join_session c d now st)) s = member_count st s"
    by (simp add: member_count_def)
  from tracker same_keys keys count show ?thesis
    by (simp add: update_conv')
qed

text \<open>
  The theorem at the teacher joining \<open>S1\<close> a second time from another socket.
\<close>

theorem rejoin_overwrites_membership_witness:
  "(reachable st_teacher_in \<and> http_session conn_T1_again = Some T1
    \<and> session_id in_S1 = Some S1
    \<and> session_participants st_teacher_in S1 = Some
        [(''T1'', \<lparr>p_user_type = ''teacher'', p_user_name = ''Tara'', socket_id = ''sockT'',
                   joined_at = ''09:01''\<rparr>)]
    \<and> map_of [(''T1'', \<lparr>p_user_type = ''teacher'', p_user_name = ''Tara'',
                 socket_id = ''sockT'', joined_at = ''09:01''\<rparr>)] (sess_user_id T1) =
        Some \<lparr>p_user_type = ''teacher'', p_user_name = ''Tara'', socket_id = ''sockT'',
              joined_at = ''09:01''\<rparr>)
   \<and> session_participants (fst (handle_join_session conn_T1_again in_S1 ''09:03''
        st_teacher_in)) S1 = Some
        [(''T1'', \<lparr>p_user_type = ''teacher'', p_user_name = ''Tara'', socket_id = ''sockT2'',
                   joined_at = ''09:03''\<rparr>)]
   \<and> member_count (fst (handle_join_session conn_T1_again in_S1 ''09:03''
        st_teacher_in)) S1 = member_count st_teacher_in S1"
proof -
  have r: "reachable st_teacher_in" by (rule reachable_classroom)
  have h: "http_session conn_T1_again = Some T1" by (simp add: conn_T1_again_def)
  have d: "session_id in_S1 = Some S1" by (simp add: classroom_defs)
  have p: "session_participants st_teacher_in S1 = Some
        [(''T1'', \<lparr>p_user_type = ''teacher'', p_user_name = ''Tara'', socket_id = ''sockT'',
                   joined_at = ''09:01''\<rparr>)]"
    by (simp add: exec_defs classroom_defs)
  have m: "map_of [(''T1'', \<lparr>p_user_type = ''teacher'', p_user_name = ''Tara'',
                 socket_id = ''sockT'', joined_at = ''09:01''\<rparr>)] (sess_user_id T1) =
        Some \<lparr>p_user_type = ''teacher'', p_user_name = ''Tara'', socket_id = ''sockT'',
              joined_at = ''09:01''\<rparr>"
    by (simp add: T1_def)
  from rejoin_overwrites_membership [OF r h d p m, of "''09:03''"] r h d p m
  show ?thesis by (simp add: T1_def conn_T1_again_def)
qed

section \<open>Claim C7: leave by a user who is not a member\<close>

text \<open>
  C7. For every session \<open>s\<close> and user \<open>u\<close> with no membership in \<open>s\<close>, a \<open>leave_session\<close>
  event for \<open>s\<close> and \<open>u\<close> leaves the room registry, the participant tracker and the pending
  timers unchanged, so the participant count of \<open>s\<close> is unchanged, and emits nothing:
  no \<open>user_left\<close> and no \<open>session_ended\<close>.
\<close>

theorem leave_non_member_noop:
  assumes "session_id d = Some s" and "leave_user_id c d = Some u"
    and "\<not> is_member st s u"
  shows "active_sessions (fst (handle_leave_session c d st)) = active_sessions st
       \<and> session_participants (fst (handle_leave_session c d st)) = session_participants st
       \<and> timers (fst (handle_leave_session c d st)) = timers st
       \<and> member_count (fst (handle_leave_session c d st)) s = member_count st s
       \<and> snd (handle_leave_session c d st) = []"
proof (cases "session_participants st s")
  case None
  with assms(1,2) show ?thesis
    by (simp add: handle_leave_session_def leave_room_def member_count_def)
next
  case (Some ps)
  with assms(3) have "map_of ps u = None" by (simp add: is_member_def)
  with Some assms(1,2) show ?thesis
    by (simp add: handle_leave_session_def leave_room_def member_count_def)
qed

text \<open>
  The theorem at student \<open>U1\<close>, who never joined, leaving \<open>S1\<close>.
\<close>

theorem leave_non_member_noop_witness:
  "(session_id in_S1 = Some S1 \<and> leave_user_id conn_U1 in_S1 = Some ''U1''
    \<and> \<not> is_member st_teacher_in S1 ''U1'')
   \<and> member_count (fst (handle_leave_session conn_U1 in_S1 st_teacher_in)) S1 = 1
   \<and> snd (handle_leave_session conn_U1 in_S1 st_teacher_in) = []"
proof -
  have d: "session_id in_S1 = Some S1" by (simp add: classroom_defs)
  have u: "leave_user_id conn_U1 in_S1 = Some ''U1''" by (simp add: exec_defs classroom_defs)
  have p: "session_participants st_teacher_in S1 = Some
        [(''T1'', \<lparr>p_user_type = ''teacher'', p_user_name = ''Tara'', socket_id = ''sockT'',
                   joined_at = ''09:01''\<rparr>)]"
    by (simp add: exec_defs classroom_defs)
  have m: "\<not> is_member st_teacher_in S1 ''U1''"
    using p by (simp add: is_member_def)
  have "member_count st_teacher_in S1 = 1"
    using p by (simp add: member_count_def)
  with leave_non_member_noop [OF d u m] d u m show ?thesis by simp
qed

section \<open>Claim C8: tracker entries belong to registered sessions\<close>

text \<open>
  C8 as stated fails: along \<open>race_trace\<close>, in which the cleanup of \<open>S1\<close> runs between the
  test and the write of a join, the participant tracker ends with an entry for \<open>S1\<close> and
  the room registry without one.
\<close>

theorem join_overtaken_by_cleanup:
  "session_participants (fst (run_threads race_trace (init_state, []))) S1 \<noteq> None
   \<and> active_sessions (fst (run_threads race_trace (init_state, []))) S1 = None
   \<and> \<not> tracker_in_registry (fst (run_threads race_trace (init_state, [])))"
proof -
  have t: "session_participants (fst (run_threads race_trace (init_state, []))) S1 \<noteq> None"
    by (simp add: race_trace_def join_check_def join_write_def exec_defs classroom_defs)
  have a: "active_sessions (fst (run_threads race_trace (init_state, []))) S1 = None"
    by (simp add: race_trace_def join_check_def join_write_def exec_defs classroom_defs)
  from t a have "\<not> tracker_in_registry (fst (run_threads race_trace (init_state, [])))"
    by (auto simp: tracker_in_registry_def)
  with t a show ?thesis by simp
qed

text \<open>
  C8 (amended). In every state reachable by a sequence of session starts, joins, leaves,
  relays and cleanups in which each handler and each timer callback runs to its end before
  the next begins, every session id with an entry in the participant tracker is present in
  the room registry; \<open>cleanup_session\<close> deletes the registry entry and the tracker
  entry of its session together, and the state it leaves satisfies the same inclusion.
\<close>

theorem tracker_entries_are_registered:
  assumes "reachable st"
  shows "dom (session_participants st) \<subseteq> dom (active_sessions st)
       \<and> active_sessions (cleanup_session s st) s = None
       \<and> session_participants (cleanup_session s st) s = None
       \<and> dom (session_participants (cleanup_session s st))
           \<subseteq> dom (active_sessions (cleanup_session s st))"
proof -
  from assms have inv: "tracker_in_registry st" by (rule reachable_tracker_in_registry)
  then have "tracker_in_registry (cleanup_session s st)" by (rule cleanup_invariants)
  with inv show ?thesis
    by (simp add: tracker_in_registry_def cleanup_session_registry cleanup_session_tracker)
qed

text \<open>
  The theorem at the state in which the teacher has joined \<open>S1\<close>.
\<close>

theorem tracker_entries_are_registered_witness:
  "reachable st_teacher_in
   \<and> session_participants st_teacher_in S1 \<noteq> None
   \<and> dom (session_participants st_teacher_in) \<subseteq> dom (active_sessions st_teacher_in)
   \<and> active_sessions (cleanup_session S1 st_teacher_in) S1 = None
   \<and> session_participants (cleanup_session S1 st_teacher_in) S1 = None"
proof -
  have r: "reachable st_teacher_in" by (rule reachable_classroom)
  have p: "session_participants st_teacher_in S1 \<noteq> None"
    by (simp add: exec_defs classroom_defs)
  from tracker_entries_are_registered [OF r, of S1] r p show ?thesis by blast
qed

section \<open>Claim C9: the relay does not look at the sender\<close>

text \<open>
  C9. For \<open>webrtc_offer\<close>, \<open>webrtc_answer\<close> and \<open>ice_candidate\<close>, what is delivered
  (to which socket, with which payload and \<open>from_user_id\<close>) is the same for any two
  sending connections \<open>c1\<close> and \<open>c2\<close> that submit the same payload in the same state,
  whatever their identities or memberships; the delivered message carries the
  \<open>from_user_id\<close> of the payload, and the state is unchanged.
\<close>

theorem relay_ignores_sender:
  "delivered (snd (handle_webrtc_offer c1 d st)) = delivered (snd (handle_webrtc_offer c2 d st))
   \<and> delivered (snd (handle_webrtc_answer c1 d st)) =
       delivered (snd (handle_webrtc_answer c2 d st))
   \<and> delivered (snd (handle_ice_candidate c1 d st)) =
       delivered (snd (handle_ice_candidate c2 d st))
   \<and> (\<forall>e \<in> set (delivered (snd (handle_webrtc_offer c1 d st))).
         body e = P_offer (from_user_id d) (offer d))
   \<and> (\<forall>e \<in> set (delivered (snd (handle_webrtc_answer c1 d st))).
         body e = P_answer (from_user_id d) (answer d))
   \<and> (\<forall>e \<in> set (delivered (snd (handle_ice_candidate c1 d st))).
         body e = P_candidate (from_user_id d) (candidate d))
   \<and> fst (handle_webrtc_offer c1 d st) = st
   \<and> fst (handle_webrtc_answer c1 d st) = st
   \<and> fst (handle_ice_candidate c1 d st) = st"
proof -
  have same: "delivered (snd (relay ev mk x c1 d st)) = delivered (snd (relay ev mk x c2 d st))"
    for ev mk x
    by (simp add: relay_def delivered_def emit_self_def split: option.splits)
  have carried: "\<forall>e \<in> set (delivered (snd (relay ev mk x c1 d st))). body e = mk (from_user_id d) x"
    for ev mk x
    by (simp add: relay_def delivered_def emit_self_def emit_room_def split: option.splits)
  from same carried show ?thesis
    by (simp add: handle_webrtc_offer_def handle_webrtc_answer_def handle_ice_candidate_def
        relay_state)
qed

text \<open>
  The theorem at the connection that never logged in or joined and at student \<open>U1\<close>: the
  same offer reaches the teacher's socket from both.
\<close>

theorem relay_ignores_sender_witness:
  "delivered (snd (handle_webrtc_offer conn_anon (signal_to S1 ''T1'') st_teacher_in)) =
     delivered (snd (handle_webrtc_offer conn_U1 (signal_to S1 ''T1'') st_teacher_in))
   \<and> delivered (snd (handle_webrtc_offer conn_anon (signal_to S1 ''T1'') st_teacher_in)) =
       [emit_room ''sockT'' ''webrtc_offer'' (P_offer (Some ''U1'') (Some ''sdp-offer''))]"
proof -
  have "delivered (snd (handle_webrtc_offer conn_anon (signal_to S1 ''T1'') st_teacher_in)) =
       [emit_room ''sockT'' ''webrtc_offer'' (P_offer (Some ''U1'') (Some ''sdp-offer''))]"
    by (simp add: exec_defs classroom_defs delivered_def)
  with relay_ignores_sender [of conn_anon "signal_to S1 ''T1''" st_teacher_in conn_U1]
  show ?thesis by blast
qed

section \<open>Claim C10: the participants field of a registry entry\<close>

text \<open>
  C10. In every reachable state the \<open>participants\<close> list of every room-registry entry is
  the empty list, and every participant count that an event reports (\<open>user_joined\<close>,
  \<open>session_info\<close>, \<open>user_left\<close>) is the number of memberships that the participant
  tracker holds for that session after the event.
\<close>

theorem participants_field_stays_empty:
  assumes "reachable st"
  shows "(\<forall>s info. active_sessions st s = Some info \<longrightarrow> participants info = [])
       \<and> (\<forall>em \<in> set (snd (step e st)). \<forall>s n. reported_count em = Some (s, n) \<longrightarrow>
            n = member_count (fst (step e st)) s)"
proof -
  from assms have "participants_untouched st" by (rule reachable_participants_untouched)
  then have empty: "\<forall>s info. active_sessions st s = Some info \<longrightarrow> participants info = []"
    by (simp add: participants_untouched_def)
  have counts: "\<forall>em \<in> set (snd (step e st)). \<forall>s n. reported_count em = Some (s, n) \<longrightarrow>
            n = member_count (fst (step e st)) s"
  proof (cases e)
    case (Ev_start online h lid lec hex8 now)
    then show ?thesis
      by (simp add: start_live_session_def reported_count_def emit_room_def Let_def
          split: option.splits)
  next
    case (Ev_join c d now)
    then show ?thesis
      by (simp add: handle_join_session_def reported_count_def member_count_def
          join_room_def emit_defs Let_def split: option.splits)
  next
    case (Ev_leave c d)
    then show ?thesis
      by (simp add: handle_leave_session_def reported_count_def member_count_def
          leave_room_def emit_defs Let_def split: option.splits)
  next
    case (Ev_chat c d)
    then show ?thesis
      by (simp add: handle_chat_message_def reported_count_def emit_defs split: option.splits)
  next
    case (Ev_timer k)
    then show ?thesis by (simp add: timer_fire_def)
  qed (simp_all add: relay_defs reported_count_def emit_defs split: option.splits)
  from empty counts show ?thesis by blast
qed

text \<open>
  The theorem at the state in which the teacher has joined \<open>S1\<close> and at the join of
  student \<open>U1\<close>: the list is empty while the reported count is two.
\<close>

theorem participants_field_stays_empty_witness:
  "reachable st_teacher_in
   \<and> map_option participants (active_sessions st_teacher_in S1) = Some []
   \<and> snd (step (Ev_join conn_U1 in_S1 ''09:02'') st_teacher_in) ! 0 =
       emit_others conn_U1 S1 ''user_joined'' (P_user_joined ''U1'' ''Uma'' ''student'' 2)
   \<and> member_count (fst (step (Ev_join conn_U1 in_S1 ''09:02'') st_teacher_in)) S1 = 2"
proof -
  have r: "reachable st_teacher_in" by (rule reachable_classroom)
  have a: "active_sessions st_teacher_in S1 \<noteq> None" by (simp add: exec_defs classroom_defs)
  have j: "snd (step (Ev_join conn_U1 in_S1 ''09:02'') st_teacher_in) ! 0 =
       emit_others conn_U1 S1 ''user_joined'' (P_user_joined ''U1'' ''Uma'' ''student'' 2)"
    by (simp add: exec_defs classroom_defs)
  have m: "emit_others conn_U1 S1 ''user_joined'' (P_user_joined ''U1'' ''Uma'' ''student'' 2)
      \<in> set (snd (step (Ev_join conn_U1 in_S1 ''09:02'') st_teacher_in))"
    by (simp add: exec_defs classroom_defs)
  have c: "reported_count (emit_others conn_U1 S1 ''user_joined''
      (P_user_joined ''U1'' ''Uma'' ''student'' 2)) = Some (S1, 2)"
    by (simp add: reported_count_def emit_others_def)
  from participants_field_stays_empty [OF r, of "Ev_join conn_U1 in_S1 ''09:02''"] m c
  have "2 = member_count (fst (step (Ev_join conn_U1 in_S1 ''09:02'') st_teacher_in)) S1"
    by blast
  moreover from participants_field_stays_empty [OF r, of "Ev_join conn_U1 in_S1 ''09:02''"] a
  have "map_option participants (active_sessions st_teacher_in S1) = Some []"
    by auto
  ultimately show ?thesis using r j by simp
qed


end
